theory Spec2Isabelle
  imports Main "HOL-Library.Word" "HOL-Library.Multiset" "HOL-Library.Sublist"
begin

unbundle bit_operations_syntax

section \<open>Python values used by run\_pylint.py\<close>

text \<open>
  A Python \<open>str\<close> is represented by its UTF-8 encoding, one \<open>char\<close> per byte, so
  \<open>str.encode()\<close> (UTF-8 by default) is the identity on the representation and
  \<open>bytes\<close> is the same type. The newline is the single byte 10 in UTF-8 and occurs in
  no multi-byte sequence, so splitting and joining at newlines agree on both levels.
\<close>

type_synonym bytes = string

abbreviation NL :: char where
  "NL \<equiv> CHR 0x0A"

abbreviation NUL :: char where
  "NUL \<equiv> CHR 0x00"

definition encode :: "string \<Rightarrow> bytes" where
  "encode s = s"

text \<open>\<open>sep.join(xs)\<close> for a list of strings.\<close>

fun str_join :: "string \<Rightarrow> string list \<Rightarrow> string" where
  "str_join sep [] = []"
| "str_join sep [x] = x"
| "str_join sep (x # y # ys) = x @ sep @ str_join sep (y # ys)"

text \<open>
  \<open>f.readlines()\<close> on a text-mode file whose (newline-translated) content is the given
  string: the lines in order, each keeping its terminating newline; a last line without a
  newline is kept as it is; the empty file has no line.
\<close>

fun readlines :: "string \<Rightarrow> string list" where
  "readlines [] = []"
| "readlines (c # cs) =
     (if c = NL then [c] # readlines cs
      else (case readlines cs of [] \<Rightarrow> [[c]] | l # ls \<Rightarrow> (c # l) # ls))"

text \<open>
  Iterating over a \<open>str\<close> yields its characters (code points). In the UTF-8
  representation a code point is a leading byte followed by its continuation bytes
  (those in 0x80..0xBF).
\<close>

definition is_continuation :: "char \<Rightarrow> bool" where
  "is_continuation c = (128 \<le> (of_char c :: nat) \<and> (of_char c :: nat) < 192)"

function py_chars :: "string \<Rightarrow> string list" where
  "py_chars [] = []"
| "py_chars (c # cs) =
     (c # takeWhile is_continuation cs) # py_chars (dropWhile is_continuation cs)"
  by pat_completeness auto
termination
  by (relation "measure length") (auto simp: length_dropWhile_le less_Suc_eq_le)

text \<open>
  What \<open>*requirements\<close> unpacks: \<open>install_virtualenv\<close> accepts any iterable of
  strings; \<open>main\<close> hands it a \<open>str\<close>.
\<close>

datatype iterable = Str string | StrList "string list"

fun unpack :: "iterable \<Rightarrow> string list" where
  "unpack (Str s) = py_chars s"
| "unpack (StrList xs) = xs"

section \<open>hashlib.sha1\<close>

text \<open>SHA-1 (FIPS 180-4) on byte strings, with the digest printed in lower-case hex.\<close>

type_synonym u32 = "32 word"

definition rotl :: "nat \<Rightarrow> u32 \<Rightarrow> u32" where
  "rotl n w = push_bit n w OR drop_bit (32 - n) w"

definition be64 :: "nat \<Rightarrow> nat list" where
  "be64 v = [v div 2 ^ 56 mod 256, v div 2 ^ 48 mod 256, v div 2 ^ 40 mod 256,
             v div 2 ^ 32 mod 256, v div 2 ^ 24 mod 256, v div 2 ^ 16 mod 256,
             v div 2 ^ 8 mod 256, v mod 256]"

definition sha1_pad :: "bytes \<Rightarrow> nat list" where
  "sha1_pad m = map of_char m @ [128] @ replicate ((119 - length m mod 64) mod 64) 0
                @ be64 (8 * length m)"

fun be_words :: "nat list \<Rightarrow> u32 list" where
  "be_words (a # b # c # d # r) =
     (push_bit 24 (of_nat a) OR push_bit 16 (of_nat b) OR push_bit 8 (of_nat c) OR of_nat d)
       # be_words r"
| "be_words _ = []"

fun blocks :: "'a list \<Rightarrow> 'a list list" where
  "blocks (w0 # w1 # w2 # w3 # w4 # w5 # w6 # w7 # w8 # w9 # w10 # w11 # w12 # w13 # w14 # w15 # r) =
     [w0, w1, w2, w3, w4, w5, w6, w7, w8, w9, w10, w11, w12, w13, w14, w15] # blocks r"
| "blocks _ = []"

text \<open>The message schedule, built newest word first.\<close>

fun expand :: "nat \<Rightarrow> u32 list \<Rightarrow> u32 list" where
  "expand 0 rws = rws"
| "expand (Suc n) rws =
     expand n (rotl 1 (rws ! 2 XOR rws ! 7 XOR rws ! 13 XOR rws ! 15) # rws)"

definition schedule :: "u32 list \<Rightarrow> u32 list" where
  "schedule blk = rev (expand 64 (rev blk))"

type_synonym sha_state = "u32 \<times> u32 \<times> u32 \<times> u32 \<times> u32"

definition f_ch :: "u32 \<Rightarrow> u32 \<Rightarrow> u32 \<Rightarrow> u32" where
  "f_ch b c d = (b AND c) OR (NOT b AND d)"

definition f_parity :: "u32 \<Rightarrow> u32 \<Rightarrow> u32 \<Rightarrow> u32" where
  "f_parity b c d = b XOR c XOR d"

definition f_maj :: "u32 \<Rightarrow> u32 \<Rightarrow> u32 \<Rightarrow> u32" where
  "f_maj b c d = (b AND c) OR (b AND d) OR (c AND d)"

fun step :: "(u32 \<Rightarrow> u32 \<Rightarrow> u32 \<Rightarrow> u32) \<Rightarrow> u32 \<Rightarrow> sha_state \<Rightarrow> u32 \<Rightarrow> sha_state" where
  "step f k (a, b, c, d, e) w = (rotl 5 a + f b c d + e + k + w, a, rotl 30 b, c, d)"

definition run_rounds :: "u32 list \<Rightarrow> sha_state \<Rightarrow> sha_state" where
  "run_rounds ws h =
     foldl (step f_parity 0xCA62C1D6)
       (foldl (step f_maj 0x8F1BBCDC)
          (foldl (step f_parity 0x6ED9EBA1)
             (foldl (step f_ch 0x5A827999) h (take 20 ws))
             (take 20 (drop 20 ws)))
          (take 20 (drop 40 ws)))
       (drop 60 ws)"

fun add_state :: "sha_state \<Rightarrow> sha_state \<Rightarrow> sha_state" where
  "add_state (h0, h1, h2, h3, h4) (a, b, c, d, e) = (h0 + a, h1 + b, h2 + c, h3 + d, h4 + e)"

definition compress :: "sha_state \<Rightarrow> u32 list \<Rightarrow> sha_state" where
  "compress h blk = add_state h (run_rounds (schedule blk) h)"

definition sha1_init :: sha_state where
  "sha1_init = (0x67452301, 0xEFCDAB89, 0x98BADCFE, 0x10325476, 0xC3D2E1F0)"

definition sha1 :: "bytes \<Rightarrow> sha_state" where
  "sha1 m = foldl compress sha1_init (blocks (be_words (sha1_pad m)))"

definition hex_digit :: "nat \<Rightarrow> char" where
  "hex_digit n = ''0123456789abcdef'' ! (n mod 16)"

definition hex32 :: "u32 \<Rightarrow> string" where
  "hex32 w =
     [hex_digit (unat w div 16 ^ 7), hex_digit (unat w div 16 ^ 6),
      hex_digit (unat w div 16 ^ 5), hex_digit (unat w div 16 ^ 4),
      hex_digit (unat w div 16 ^ 3), hex_digit (unat w div 16 ^ 2),
      hex_digit (unat w div 16), hex_digit (unat w)]"

fun hex_state :: "sha_state \<Rightarrow> string" where
  "hex_state (h0, h1, h2, h3, h4) = hex32 h0 @ hex32 h1 @ hex32 h2 @ hex32 h3 @ hex32 h4"

definition sha1_hexdigest :: "bytes \<Rightarrow> string" where
  "sha1_hexdigest m = hex_state (sha1 m)"

section \<open>Exceptions, the process environment and the outside world\<close>

type_synonym env = "string \<rightharpoonup> string"

text \<open>\<open>subprocess.CalledProcessError\<close>: \<open>cmd\<close> is the argument tuple given to
  \<open>subprocess.run\<close>; the streams are \<open>None\<close> when they were not captured.\<close>

datatype process_error =
  ProcessError (returncode: int) (cmd: "string list") (stdout: "bytes option") (stderr: "bytes option")

datatype exn =
    SystemExit int
  | RuntimeError string
  | OSError string
  | TypeError
  | ValueError
  | CalledProcessError process_error

text \<open>The parsed command line (\<open>argparse.Namespace\<close>).\<close>

record args =
  requirements :: string
  files :: "string list"

text \<open>
  What the script takes from the interpreter, the standard library and the operating
  system. \<open>'w\<close> is the state of everything outside the process (file system, installed
  programs, working directory). \<open>run_process\<close> is \<open>subprocess.run\<close> without the
  \<open>check\<close>; \<open>pathsep\<close> is the one character of \<open>os.pathsep\<close>. A run either
  could not start the program (an exception), or the program ran to the end
  with an exit code and, when captured, its two output streams; it may change the
  outside world but not this process's environment table.
\<close>

record 'w system =
  os_name :: string
  pathsep :: char
  pardir :: string
  sys_executable :: string
  sys_argv :: "string list"
  path_join :: "string list \<Rightarrow> string"
  abspath :: "'w \<Rightarrow> string \<Rightarrow> string"
  path_exists :: "'w \<Rightarrow> string \<Rightarrow> bool"
  open_text :: "'w \<Rightarrow> string \<Rightarrow> exn + string"
  run_process :: "'w \<Rightarrow> env \<Rightarrow> string list \<Rightarrow> bool
                    \<Rightarrow> (exn + int \<times> bytes option \<times> bytes option) \<times> 'w"
  argparse :: "string list \<Rightarrow> exn + args"
  decode :: "bytes \<Rightarrow> exn + string"

text \<open>The observable effects, in order: files opened, paths tested for existence, and
  programs started (with the environment table they were started under; an attempt that
  could not start the program is recorded as well).\<close>

datatype event =
    Open string
  | Exists string
  | Spawn "string list" env

record 'w state =
  environ :: env
  world :: 'w
  sys_stderr :: string
  events :: "event list"

type_synonym ('w, 'a) prog = "'w state \<Rightarrow> (exn + 'a) \<times> 'w state"

section \<open>run\_pylint.py\<close>

definition cache_dir :: "'w system \<Rightarrow> 'w state \<Rightarrow> exn + string" where
  "cache_dir S s =
     (case environ s ''VIRTUAL_ENV'' of
        None \<Rightarrow> Inl (RuntimeError ''Script must be run from virtualenv'')
      | Some venv_dir \<Rightarrow> Inr (abspath S (world s) (path_join S [venv_dir, pardir S])))"

definition venv_cache_dir :: "'w system \<Rightarrow> string \<Rightarrow> 'w state \<Rightarrow> exn + string" where
  "venv_cache_dir S reqs_hash s =
     (case cache_dir S s of
        Inl e \<Rightarrow> Inl e
      | Inr d \<Rightarrow> Inr (path_join S [d, ''pylint_venvs'', reqs_hash]))"

definition bin_dir :: "'w system \<Rightarrow> string \<Rightarrow> string" where
  "bin_dir S venv = path_join S [venv, if os_name S = ''nt'' then ''Scripts'' else ''bin'']"

text \<open>
  \<open>os.environ[key] = value\<close>: \<open>putenv\<close> refuses an empty name, a name with \<open>=\<close> in it
  and a NUL byte in the name or the value with \<open>ValueError\<close>, and the table is then left
  as it was. \<open>os.environ.pop(key, None)\<close> removes the variable if it is there.
\<close>

definition environ_setitem :: "string \<Rightarrow> string \<Rightarrow> env \<Rightarrow> exn + env" where
  "environ_setitem key v e =
     (if key = [] \<or> CHR ''='' \<in> set key \<or> NUL \<in> set key \<or> NUL \<in> set v
      then Inl ValueError
      else Inr (e(key \<mapsto> v)))"

definition environ_pop :: "string \<Rightarrow> env \<Rightarrow> env" where
  "environ_pop key e = e(key := None)"

text \<open>
  Lines 34 to 37 of \<open>venv_context\<close>, on the snapshot \<open>e0\<close>: the four statements before
  the \<open>try\<close>. A statement that raises ends them; the result is the exception (if any)
  and the table as the statements before it have left it.
\<close>

definition venv_enter :: "'w system \<Rightarrow> string \<Rightarrow> env \<Rightarrow> (exn + unit) \<times> env" where
  "venv_enter S venv e0 =
     (let e1 = environ_pop ''PYTHON_HOME'' e0 in
      case environ_setitem ''PIP_DISABLE_PIP_VERSION_CHECK'' ''1'' e1 of
        Inl x \<Rightarrow> (Inl x, e1)
      | Inr e2 \<Rightarrow>
         (case environ_setitem ''VIRTUAL_ENV'' venv e2 of
            Inl x \<Rightarrow> (Inl x, e2)
          | Inr e3 \<Rightarrow>
             (case environ_setitem ''PATH''
                     (concat [bin_dir S venv, [pathsep S],
                              (case e3 ''PATH'' of None \<Rightarrow> [] | Some p \<Rightarrow> p)]) e3 of
                Inl x \<Rightarrow> (Inl x, e3)
              | Inr e4 \<Rightarrow> (Inr (), e4))))"

text \<open>\<open>env.clear()\<close> and \<open>env.update(to_restore)\<close>; every entry of the snapshot was read
  from the table itself, so putting it back does not raise.\<close>

definition env_clear :: "env \<Rightarrow> env" where
  "env_clear e = Map.empty"

definition env_update :: "env \<Rightarrow> env \<Rightarrow> env" where
  "env_update e other = e ++ other"

text \<open>
  The context manager with its body. The snapshot is taken and the four statements run
  before the \<open>try\<close>: if one of them raises, the exception leaves the context manager, the
  body does not run and the table stays as the statements have left it. Otherwise the
  body runs on the changed table, and the \<open>finally\<close> clause, which runs whether the body
  returned or raised, puts the snapshot back and hands the body's result (or exception)
  on.
\<close>

definition venv_context :: "'w system \<Rightarrow> string \<Rightarrow> ('w, 'a) prog \<Rightarrow> ('w, 'a) prog" where
  "venv_context S venv body s =
     (let to_restore = environ s in
      case venv_enter S venv (environ s) of
        (Inl x, e) \<Rightarrow> (Inl x, s\<lparr>environ := e\<rparr>)
      | (Inr _, e) \<Rightarrow>
          (case body (s\<lparr>environ := e\<rparr>) of
             (r, s') \<Rightarrow> (r, s'\<lparr>environ := env_update (env_clear (environ s')) to_restore\<rparr>)))"

definition read_requirements :: "'w system \<Rightarrow> string \<Rightarrow> ('w, string list) prog" where
  "read_requirements S path s =
     (let s' = s\<lparr>events := events s @ [Open path]\<rparr>
      in case open_text S (world s) path of
           Inl e \<Rightarrow> (Inl e, s')
         | Inr content \<Rightarrow> (Inr (readlines content), s'))"

definition call :: "'w system \<Rightarrow> string list \<Rightarrow> bool \<Rightarrow> bool \<Rightarrow> ('w, unit) prog" where
  "call S command capture_output check s =
     (case run_process S (world s) (environ s) command capture_output of
        (res, w') \<Rightarrow>
          (let s' = s\<lparr>world := w', events := events s @ [Spawn command (environ s)]\<rparr>
           in case res of
                Inl e \<Rightarrow> (Inl e, s')
              | Inr (rc, out, err) \<Rightarrow>
                  if check \<and> rc \<noteq> 0
                  then (Inl (CalledProcessError (ProcessError rc command out err)), s')
                  else (Inr (), s')))"

text \<open>The items handed to \<open>b''.join\<close>, which accepts bytes-like items only.\<close>

datatype pyval = PyBytes bytes | PyTuple "string list" | PyNone

fun bytes_join :: "pyval list \<Rightarrow> exn + bytes" where
  "bytes_join [] = Inr []"
| "bytes_join (PyBytes b # vs) =
     (case bytes_join vs of Inl e \<Rightarrow> Inl e | Inr r \<Rightarrow> Inr (b @ r))"
| "bytes_join (v # vs) = Inl TypeError"

fun opt_bytes :: "bytes option \<Rightarrow> pyval" where
  "opt_bytes None = PyNone"
| "opt_bytes (Some b) = PyBytes b"

definition process_error_to_str :: "'w system \<Rightarrow> process_error \<Rightarrow> exn + string" where
  "process_error_to_str S e =
     (case bytes_join
             [PyBytes (''command:'' @ [NL, NL]), PyTuple (cmd e), PyBytes [NL],
              PyBytes (''stdout:'' @ [NL, NL]), opt_bytes (stdout e), PyBytes [NL],
              PyBytes (''stderr:'' @ [NL, NL]), opt_bytes (stderr e), PyBytes [NL]] of
        Inl x \<Rightarrow> Inl x
      | Inr b \<Rightarrow> decode S b)"

text \<open>\<open>print(msg, file=sys.stderr)\<close>\<close>

definition print_stderr :: "string \<Rightarrow> 'w state \<Rightarrow> 'w state" where
  "print_stderr msg s = s\<lparr>sys_stderr := sys_stderr s @ msg @ [NL]\<rparr>"

definition install_virtualenv :: "'w system \<Rightarrow> string \<Rightarrow> iterable \<Rightarrow> ('w, int) prog" where
  "install_virtualenv S venv_dir reqs s =
     (case (case call S [sys_executable S, ''-mvirtualenv'', venv_dir] True True s of
              (Inl e, s1) \<Rightarrow> (Inl e, s1)
            | (Inr _, s1) \<Rightarrow>
                venv_context S venv_dir
                  (call S (''pip'' # ''install'' # unpack reqs) True True) s1) of
        (Inl (CalledProcessError e), s2) \<Rightarrow>
          (case process_error_to_str S e of
             Inl x \<Rightarrow> (Inl x, s2)
           | Inr msg \<Rightarrow> (Inr (returncode e), print_stderr msg s2))
      | (Inl x, s2) \<Rightarrow> (Inl x, s2)
      | (Inr _, s2) \<Rightarrow> (Inr 0, s2))"

definition parse_arguments :: "'w system \<Rightarrow> string list \<Rightarrow> exn + args" where
  "parse_arguments S argv = argparse S argv"

text \<open>The cache key of line 95.\<close>

definition reqs_hash :: "string list \<Rightarrow> string" where
  "reqs_hash reqs = sha1_hexdigest (encode (str_join [NL] reqs))"

text \<open>
  \<open>main\<close>, with \<open>argv\<close> as given or \<open>sys.argv[1:]\<close>. The provisioner is called as a
  statement (line 99): an exception it raises leaves \<open>main\<close>, the value it returns is
  dropped.
\<close>

definition main :: "'w system \<Rightarrow> string list option \<Rightarrow> ('w, int) prog" where
  "main S argv s =
     (case parse_arguments S (case argv of Some a \<Rightarrow> a | None \<Rightarrow> tl (sys_argv S)) of
        Inl e \<Rightarrow> (Inl e, s)
      | Inr a \<Rightarrow>
         (case read_requirements S (requirements a) s of
            (Inl e, s1) \<Rightarrow> (Inl e, s1)
          | (Inr reqs, s1) \<Rightarrow>
             (case venv_cache_dir S (reqs_hash reqs) s1 of
                Inl e \<Rightarrow> (Inl e, s1)
              | Inr venv_dir \<Rightarrow>
                 (case (if \<not> path_exists S (world s1) venv_dir
                        then install_virtualenv S venv_dir (Str (requirements a))
                               (s1\<lparr>events := events s1 @ [Exists venv_dir]\<rparr>)
                        else (Inr 0, s1\<lparr>events := events s1 @ [Exists venv_dir]\<rparr>)) of
                    (Inl e, s2) \<Rightarrow> (Inl e, s2)
                  | (Inr _, s2) \<Rightarrow>
                     (case venv_context S venv_dir
                             (call S (''pylint'' # files a) False True) s2 of
                        (Inl (CalledProcessError e), s3) \<Rightarrow> (Inr (returncode e), s3)
                      | (Inl x, s3) \<Rightarrow> (Inl x, s3)
                      | (Inr _, s3) \<Rightarrow> (Inr 0, s3))))))"

section \<open>Observations on a run\<close>

text \<open>The commands started, in order.\<close>

fun spawned :: "event list \<Rightarrow> string list list" where
  "spawned [] = []"
| "spawned (Spawn c e # es) = c # spawned es"
| "spawned (x # es) = spawned es"

text \<open>The scope of \<open>venv_context\<close> is entered: none of the four statements raises.\<close>

definition enters :: "'w system \<Rightarrow> string \<Rightarrow> env \<Rightarrow> bool" where
  "enters S venv e = (fst (venv_enter S venv e) = Inr ())"

text \<open>The table the four statements leave.\<close>

definition activated :: "'w system \<Rightarrow> string \<Rightarrow> env \<Rightarrow> env" where
  "activated S venv e = snd (venv_enter S venv e)"





text \<open>
  What the outside world is expected to do, for the one claim that depends on it: an
  environment creation that exits with 0 has created its target directory, and no program
  run removes an existing path.
\<close>

definition creates_on_success :: "'w system \<Rightarrow> bool" where
  "creates_on_success S =
     (\<forall>w e d cap out err w'.
        run_process S w e [sys_executable S, ''-mvirtualenv'', d] cap = (Inr (0, out, err), w')
          \<longrightarrow> path_exists S w' d)"

definition keeps_paths :: "'w system \<Rightarrow> bool" where
  "keeps_paths S =
     (\<forall>w e c cap r w' p.
        run_process S w e c cap = (r, w') \<longrightarrow> path_exists S w p \<longrightarrow> path_exists S w' p)"

section \<open>A concrete POSIX system for running the model\<close>

fun split_path :: "string \<Rightarrow> string list" where
  "split_path [] = [[]]"
| "split_path (c # cs) =
     (if c = CHR ''/'' then [] # split_path cs
      else (case split_path cs of [] \<Rightarrow> [[c]] | l # ls \<Rightarrow> (c # l) # ls))"

text \<open>\<open>os.path.abspath\<close> on an absolute POSIX path: empty, \<open>.\<close> and \<open>..\<close> components are
  resolved.\<close>

definition posix_abspath :: "string \<Rightarrow> string" where
  "posix_abspath p =
     ''/'' @ str_join ''/''
       (foldl (\<lambda>acc comp. if comp = ''..'' then butlast acc
                            else if comp = [] \<or> comp = ''.'' then acc
                            else acc @ [comp])
          [] (split_path p))"

text \<open>
  The outside world is the list of existing directories. The manifest
  \<open>requirements.txt\<close> holds the one line \<open>pylint==3.0.0\<close>; no other file can be opened.
  Every program starts and exits with the code \<open>rc\<close> gives its command line; a successful
  \<open>-mvirtualenv\<close> run creates its target directory. The command line has no options: all
  arguments are files and the manifest is the default one.
\<close>

definition posix_system :: "(string list \<Rightarrow> int) \<Rightarrow> string list system" where
  "posix_system rc =
     \<lparr> os_name = ''posix'',
       pathsep = CHR '':'',
       pardir = ''..'',
       sys_executable = ''/usr/bin/python3'',
       sys_argv = [''run_pylint.py''],
       path_join = str_join ''/'',
       abspath = (\<lambda>w p. posix_abspath p),
       path_exists = (\<lambda>w p. p \<in> set w),
       open_text = (\<lambda>w p. if p = ''requirements.txt'' then Inr (''pylint==3.0.0'' @ [NL])
                            else Inl (OSError ''No such file or directory'')),
       run_process = (\<lambda>w e command capture.
          (Inr (rc command,
                if capture then Some ''out'' else None,
                if capture then Some ''err'' else None),
           case command of
             [exe, opt, dir] \<Rightarrow> if opt = ''-mvirtualenv'' \<and> rc command = 0 then dir # w else w
           | _ \<Rightarrow> w)),
       argparse = (\<lambda>argv. Inr \<lparr>requirements = ''requirements.txt'', files = argv\<rparr>),
       decode = Inr \<rparr>"

text \<open>Every program succeeds; the environment creation exits with 3; the install exits
  with 2; the linter exits with 4.\<close>

definition all_succeed :: "string list \<Rightarrow> int" where
  "all_succeed c = 0"

definition creation_fails :: "string list \<Rightarrow> int" where
  "creation_fails c = (if take 1 (drop 1 c) = [''-mvirtualenv''] then 3 else 0)"

definition install_fails :: "string list \<Rightarrow> int" where
  "install_fails c = (if take 1 c = [''pip''] then 2 else 0)"

definition lint_finds :: "string list \<Rightarrow> int" where
  "lint_finds c = (if take 1 c = [''pylint''] then 4 else 0)"

text \<open>The start of a run from a pre-commit environment \<open>/c/py_env\<close> with an empty cache.\<close>

definition start :: "string list state" where
  "start = \<lparr> environ = [''VIRTUAL_ENV'' \<mapsto> ''/c/py_env'', ''PATH'' \<mapsto> ''/usr/bin''],
             world = [], sys_stderr = [], events = [] \<rparr>"

section \<open>The digest's format\<close>

lemma hex_digit_in: "hex_digit n \<in> set ''0123456789abcdef''"
proof -
  have "n mod 16 < length ''0123456789abcdef''" by simp
  then show ?thesis unfolding hex_digit_def by (rule nth_mem)
qed

lemma hex32_format: "length (hex32 w) = 8 \<and> set (hex32 w) \<subseteq> set ''0123456789abcdef''"
  using hex_digit_in by (simp add: hex32_def del: set_simps) (auto simp: hex32_def)

lemma sha1_hexdigest_format:
  "length (sha1_hexdigest m) = 40 \<and> set (sha1_hexdigest m) \<subseteq> set ''0123456789abcdef''"
proof -
  obtain h0 h1 h2 h3 h4 where "sha1 m = (h0, h1, h2, h3, h4)"
    by (cases "sha1 m")
  then show ?thesis
    using hex32_format [of h0] hex32_format [of h1] hex32_format [of h2]
      hex32_format [of h3] hex32_format [of h4]
    by (simp add: sha1_hexdigest_def del: set_simps)
qed

lemma reqs_hash_no_nul: "NUL \<notin> set (reqs_hash xs)"
proof -
  have "NUL \<notin> set ''0123456789abcdef''" by simp
  moreover have "set (reqs_hash xs) \<subseteq> set ''0123456789abcdef''"
    unfolding reqs_hash_def using sha1_hexdigest_format by blast
  ultimately show ?thesis by blast
qed

section \<open>The scoped activation\<close>

lemma env_restore: "env_update (env_clear e) snapshot = snapshot"
  by (simp add: env_update_def env_clear_def)

text \<open>The four statements raise nothing but \<open>ValueError\<close>, and only on a NUL byte.\<close>

lemma enters_iff:
  "enters S venv e \<longleftrightarrow>
     NUL \<notin> set venv \<and> NUL \<notin> set (bin_dir S venv) \<and> pathsep S \<noteq> NUL
     \<and> (\<forall>p. e ''PATH'' = Some p \<longrightarrow> NUL \<notin> set p)"
  by (auto simp: enters_def venv_enter_def environ_setitem_def environ_pop_def Let_def
      split: option.splits if_splits)

lemma venv_enter_entered: "enters S venv e \<Longrightarrow> venv_enter S venv e = (Inr (), activated S venv e)"
  by (simp add: enters_def activated_def prod_eq_iff)

lemma venv_enter_refused:
  "\<not> enters S venv e \<Longrightarrow> venv_enter S venv e = (Inl ValueError, activated S venv e)"
  by (auto simp: enters_def activated_def venv_enter_def environ_setitem_def Let_def
      split: if_splits)


lemma venv_context_entered:
  "enters S venv (environ s) \<Longrightarrow>
     venv_context S venv body s =
       (case body (s\<lparr>environ := activated S venv (environ s)\<rparr>) of
          (r, s') \<Rightarrow> (r, s'\<lparr>environ := environ s\<rparr>))"
  by (simp add: venv_context_def venv_enter_entered env_restore)

lemma venv_context_refused:
  "\<not> enters S venv (environ s) \<Longrightarrow>
     venv_context S venv body s = (Inl ValueError, s\<lparr>environ := activated S venv (environ s)\<rparr>)"
  by (simp add: venv_context_def venv_enter_refused)




text \<open>
  C8. Line 34 removes a variable named \<open>PYTHON_HOME\<close>; the interpreter's home variable
  is \<open>PYTHONHOME\<close>. Inside the scope entered with \<open>PYTHONHOME\<close> set to \<open>/p\<close>, that variable
  is still \<open>/p\<close>; the other three variables are as the claim says.
\<close>

theorem venv_context_keeps_pythonhome:
  "fst (venv_context (posix_system all_succeed) ''/c/pylint_venvs/k''
          (\<lambda>s. (Inr (environ s ''PYTHONHOME'', environ s ''PIP_DISABLE_PIP_VERSION_CHECK'',
                      environ s ''VIRTUAL_ENV'', environ s ''PATH''), s))
          (start\<lparr>environ := [''PYTHONHOME'' \<mapsto> ''/p'', ''PATH'' \<mapsto> ''/usr/bin'']\<rparr>))
     = Inr (Some ''/p'', Some ''1'', Some ''/c/pylint_venvs/k'',
            Some ''/c/pylint_venvs/k/bin:/usr/bin'')"
  by (simp add: venv_context_def venv_enter_def environ_setitem_def environ_pop_def start_def
      bin_dir_def posix_system_def)

section \<open>Running the concrete system\<close>

lemmas run_defs = main_def parse_arguments_def read_requirements_def venv_cache_dir_def
  cache_dir_def install_virtualenv_def call_def venv_context_def venv_enter_def
  environ_setitem_def environ_pop_def bin_dir_def process_error_to_str_def
  print_stderr_def env_update_def env_clear_def posix_system_def start_def posix_abspath_def
  reqs_hash_no_nul

section \<open>Provisioning failures\<close>

text \<open>
  \<open>e.cmd\<close> is the tuple of strings that \<open>call\<close> handed to \<open>subprocess.run\<close>, and
  \<open>b''.join\<close> refuses it: \<open>process_error_to_str\<close> raises \<open>TypeError\<close> on every
  \<open>CalledProcessError\<close> it is given.
\<close>

lemma process_error_to_str_raises: "process_error_to_str S e = Inl TypeError"
  by (simp add: process_error_to_str_def)

text \<open>
  C2. When the environment creation exits with 3, and when the install exits with 2,
  \<open>install_virtualenv\<close> does not return the exit code: it raises \<open>TypeError\<close> from its
  exception handler, and nothing has been written to the error stream.
\<close>

theorem install_virtualenv_failure_raises:
  "fst (install_virtualenv (posix_system creation_fails) ''/c/pylint_venvs/k''
          (StrList [''pylint==3.0.0'']) start) = Inl TypeError
   \<and> sys_stderr (snd (install_virtualenv (posix_system creation_fails) ''/c/pylint_venvs/k''
          (StrList [''pylint==3.0.0'']) start)) = []
   \<and> fst (install_virtualenv (posix_system install_fails) ''/c/pylint_venvs/k''
          (StrList [''pylint==3.0.0'']) start) = Inl TypeError
   \<and> sys_stderr (snd (install_virtualenv (posix_system install_fails) ''/c/pylint_venvs/k''
          (StrList [''pylint==3.0.0'']) start)) = []"
  by (simp add: run_defs creation_fails_def install_fails_def)

text \<open>
  C1. With an empty cache, when the environment creation exits with 3 or the install exits
  with 2, \<open>main\<close> returns no exit code at all: the \<open>TypeError\<close> of the provisioner's
  handler leaves \<open>main\<close>, and the linter is never started. A linter that exits with 4 on
  a successful provisioning gives 4, and a run in which everything succeeds gives 0.
\<close>

theorem main_provisioning_failure_raises:
  "fst (main (posix_system creation_fails) (Some [''a.py'']) start) = Inl TypeError
   \<and> spawned (events (snd (main (posix_system creation_fails) (Some [''a.py'']) start)))
       = [[''/usr/bin/python3'', ''-mvirtualenv'',
           ''/c/pylint_venvs/'' @ reqs_hash [''pylint==3.0.0'' @ [NL]]]]
   \<and> fst (main (posix_system install_fails) (Some [''a.py'']) start) = Inl TypeError
   \<and> fst (main (posix_system lint_finds) (Some [''a.py'']) start) = Inr 4
   \<and> fst (main (posix_system all_succeed) (Some [''a.py'']) start) = Inr 0"
  by (simp add: run_defs creation_fails_def install_fails_def lint_finds_def all_succeed_def
      is_continuation_def)

text \<open>
  C3. \<open>main\<close> hands the provisioner the manifest's path, not the lines read from it, and
  \<open>*requirements\<close> unpacks that string into its characters: with the manifest
  \<open>requirements.txt\<close> holding \<open>pylint==3.0.0\<close>, the install command is
  \<open>pip install r e q u i r e m e n t s . t x t\<close>.
\<close>

theorem main_installs_path_characters:
  "spawned (events (snd (main (posix_system all_succeed) (Some [''a.py'']) start))) =
     [[''/usr/bin/python3'', ''-mvirtualenv'',
       ''/c/pylint_venvs/'' @ reqs_hash [''pylint==3.0.0'' @ [NL]]],
      [''pip'', ''install'', ''r'', ''e'', ''q'', ''u'', ''i'', ''r'', ''e'', ''m'', ''e'', ''n'',
       ''t'', ''s'', ''.'', ''t'', ''x'', ''t''],
      [''pylint'', ''a.py'']]"
  by (simp add: run_defs all_succeed_def is_continuation_def)

section \<open>A run outside a virtualenv\<close>

text \<open>
  C7 as stated fails: without \<open>VIRTUAL_ENV\<close> the manifest has been opened by the time
  the configuration error is raised.
\<close>

theorem main_without_virtualenv_opens_manifest:
  "fst (main (posix_system all_succeed) (Some [''a.py''])
          (start\<lparr>environ := [''PATH'' \<mapsto> ''/usr/bin'']\<rparr>))
     = Inl (RuntimeError ''Script must be run from virtualenv'')
   \<and> events (snd (main (posix_system all_succeed) (Some [''a.py''])
          (start\<lparr>environ := [''PATH'' \<mapsto> ''/usr/bin'']\<rparr>)))
     = [Open ''requirements.txt'']"
  by (simp add: run_defs)

text \<open>
  C7, amended. When \<open>VIRTUAL_ENV\<close> is unset and the command line parses, \<open>main\<close> opens the
  manifest and nothing else happens: if the manifest can be read, the run fails with the
  configuration error; if it cannot be opened, the run fails with that error instead. In
  both cases the state after the run is the state before it with the one \<open>Open\<close> event
  added: no path was tested, no program started, nothing printed, and the outside world
  and the environment table are untouched.
\<close>

theorem main_without_virtualenv:
  assumes "environ s ''VIRTUAL_ENV'' = None"
    and "parse_arguments S (case argv of Some a \<Rightarrow> a | None \<Rightarrow> tl (sys_argv S)) = Inr a"
  shows "(\<forall>content. open_text S (world s) (requirements a) = Inr content \<longrightarrow>
            main S argv s = (Inl (RuntimeError ''Script must be run from virtualenv''),
                             s\<lparr>events := events s @ [Open (requirements a)]\<rparr>))
       \<and> (\<forall>e. open_text S (world s) (requirements a) = Inl e \<longrightarrow>
            main S argv s = (Inl e, s\<lparr>events := events s @ [Open (requirements a)]\<rparr>))"
  using assms
  by (simp add: main_def read_requirements_def venv_cache_dir_def cache_dir_def)

theorem main_without_virtualenv_witness:
  "environ (start\<lparr>environ := [''PATH'' \<mapsto> ''/usr/bin'']\<rparr>) ''VIRTUAL_ENV'' = None
   \<and> open_text (posix_system all_succeed) [] ''requirements.txt'' = Inr (''pylint==3.0.0'' @ [NL])
   \<and> main (posix_system all_succeed) (Some [''a.py''])
         (start\<lparr>environ := [''PATH'' \<mapsto> ''/usr/bin'']\<rparr>)
       = (Inl (RuntimeError ''Script must be run from virtualenv''),
          start\<lparr>environ := [''PATH'' \<mapsto> ''/usr/bin''], events := [Open ''requirements.txt'']\<rparr>)"
  using main_without_virtualenv [of "start\<lparr>environ := [''PATH'' \<mapsto> ''/usr/bin'']\<rparr>"
      "posix_system all_succeed" "Some [''a.py'']"
      "\<lparr>requirements = ''requirements.txt'', files = [''a.py'']\<rparr>"]
  by (simp add: parse_arguments_def posix_system_def start_def)

section \<open>The shape of a run\<close>

lemma scoped_call:
  "enters S v (environ s) \<Longrightarrow>
   venv_context S v (call S c cap chk) s =
     (case run_process S (world s) (activated S v (environ s)) c cap of
        (res, w') \<Rightarrow>
          (case res of
             Inl e \<Rightarrow> Inl e
           | Inr (rc, out, err) \<Rightarrow>
               if chk \<and> rc \<noteq> 0 then Inl (CalledProcessError (ProcessError rc c out err))
               else Inr (),
           s\<lparr>world := w', events := events s @ [Spawn c (activated S v (environ s))]\<rparr>))"
  by (auto simp: venv_context_entered call_def Let_def split: prod.split sum.split)

lemma spawned_append: "spawned (xs @ ys) = spawned xs @ spawned ys"
  by (induction xs rule: spawned.induct) simp_all

text \<open>The four ways a provisioning run ends: the creation does not succeed; the creation
  succeeds and the scope is not entered; the install does not succeed; both succeed.\<close>

lemma install_virtualenv_cases:
  fixes S :: "'w system"
  defines "c1 \<equiv> \<lambda>v. [sys_executable S, ''-mvirtualenv'', v]"
  shows
  "(\<exists>x w1. install_virtualenv S v r s =
        (Inl x, s\<lparr>world := w1, events := events s @ [Spawn (c1 v) (environ s)]\<rparr>))
   \<or> (\<exists>out err w1.
        run_process S (world s) (environ s) (c1 v) True = (Inr (0, out, err), w1)
        \<and> \<not> enters S v (environ s)
        \<and> install_virtualenv S v r s =
        (Inl ValueError, s\<lparr>environ := activated S v (environ s), world := w1,
             events := events s @ [Spawn (c1 v) (environ s)]\<rparr>))
   \<or> (\<exists>x out err w1 w2.
        run_process S (world s) (environ s) (c1 v) True = (Inr (0, out, err), w1)
        \<and> enters S v (environ s)
        \<and> install_virtualenv S v r s =
        (Inl x, s\<lparr>world := w2, events := events s @ [Spawn (c1 v) (environ s),
             Spawn (''pip'' # ''install'' # unpack r) (activated S v (environ s))]\<rparr>))
   \<or> (\<exists>out err w1 out2 err2 w2.
        run_process S (world s) (environ s) (c1 v) True = (Inr (0, out, err), w1)
        \<and> enters S v (environ s)
        \<and> run_process S w1 (activated S v (environ s)) (''pip'' # ''install'' # unpack r) True
            = (Inr (0, out2, err2), w2)
        \<and> install_virtualenv S v r s =
        (Inr 0, s\<lparr>world := w2, events := events s @ [Spawn (c1 v) (environ s),
             Spawn (''pip'' # ''install'' # unpack r) (activated S v (environ s))]\<rparr>))"
proof (cases "run_process S (world s) (environ s) (c1 v) True")
  case (Pair res1 w1)
  show ?thesis
  proof (cases res1)
    case (Inl x)
    with Pair show ?thesis
      by (auto simp: install_virtualenv_def call_def c1_def process_error_to_str_raises
          split: exn.split)
  next
    case (Inr t)
    obtain rc out err where t: "t = (rc, out, err)" by (cases t)
    show ?thesis
    proof (cases "rc = 0")
      case False
      with Pair Inr t show ?thesis
        by (auto simp: install_virtualenv_def call_def c1_def process_error_to_str_raises)
    next
      case True
      show ?thesis
      proof (cases "enters S v (environ s)")
        case no: False
        from Pair Inr t True no show ?thesis
          by (simp add: install_virtualenv_def call_def c1_def venv_context_refused)
      next
        case yes: True
        obtain res2 w2 where p2: "run_process S w1 (activated S v (environ s))
            (''pip'' # ''install'' # unpack r) True = (res2, w2)"
          by (cases "run_process S w1 (activated S v (environ s))
            (''pip'' # ''install'' # unpack r) True")
        from Pair Inr t True yes p2 show ?thesis
          by (auto simp: install_virtualenv_def call_def c1_def scoped_call
              process_error_to_str_raises split: sum.split exn.split)
      qed
    qed
  qed
qed

lemma main_from_manifest:
  assumes "parse_arguments S (case argv of Some x \<Rightarrow> x | None \<Rightarrow> tl (sys_argv S)) = Inr a"
    and "open_text S (world s) (requirements a) = Inr content"
    and "cache_dir S s = Inr root"
    and "venv_dir = path_join S [root, ''pylint_venvs'', reqs_hash (readlines content)]"
    and "s1 = s\<lparr>events := events s @ [Open (requirements a), Exists venv_dir]\<rparr>"
  shows "main S argv s =
     (case (if \<not> path_exists S (world s) venv_dir
            then install_virtualenv S venv_dir (Str (requirements a)) s1
            else (Inr 0, s1)) of
        (Inl e, s2) \<Rightarrow> (Inl e, s2)
      | (Inr _, s2) \<Rightarrow>
          (case venv_context S venv_dir (call S (''pylint'' # files a) False True) s2 of
             (Inl (CalledProcessError e), s3) \<Rightarrow> (Inr (returncode e), s3)
           | (Inl x, s3) \<Rightarrow> (Inl x, s3)
           | (Inr _, s3) \<Rightarrow> (Inr 0, s3)))"
proof -
  have "cache_dir S (s\<lparr>events := events s @ [Open (requirements a)]\<rparr>) = Inr root"
    using assms(3) by (simp add: cache_dir_def split: option.splits)
  then show ?thesis
    using assms(1,2) unfolding assms(5) assms(4)
    by (simp add: main_def read_requirements_def venv_cache_dir_def Let_def)
qed

text \<open>What the lint run adds to a state: the one program started when the scope is
  entered, whatever its outcome, and nothing but \<open>ValueError\<close> when it is not.\<close>

lemma lint_run:
  "enters S v (environ s2) \<Longrightarrow>
   \<exists>r w3. (case venv_context S v (call S c False True) s2 of
             (Inl (CalledProcessError e), s3) \<Rightarrow> (Inr (returncode e), s3)
           | (Inl x, s3) \<Rightarrow> (Inl x, s3)
           | (Inr _, s3) \<Rightarrow> (Inr 0, s3))
         = (r, s2\<lparr>world := w3, events := events s2 @ [Spawn c (activated S v (environ s2))]\<rparr>)
       \<and> w3 = snd (run_process S (world s2) (activated S v (environ s2)) c False)"
  by (auto simp: scoped_call split: prod.split sum.split exn.split)

lemma lint_refused:
  "\<not> enters S v (environ s2) \<Longrightarrow>
   (case venv_context S v (call S c False True) s2 of
      (Inl (CalledProcessError e), s3) \<Rightarrow> (Inr (returncode e), s3)
    | (Inl x, s3) \<Rightarrow> (Inl x, s3)
    | (Inr _, s3) \<Rightarrow> (Inr 0, s3))
     = (Inl ValueError, s2\<lparr>environ := activated S v (environ s2)\<rparr>)"
  by (simp add: venv_context_refused)

section \<open>The install command runs inside the scope\<close>




section \<open>Cache hit and cache miss\<close>

lemma posix_creates_on_success: "creates_on_success (posix_system all_succeed)"
  by (simp add: creates_on_success_def posix_system_def all_succeed_def)

lemma posix_keeps_paths: "keeps_paths (posix_system rc)"
  by (auto simp: keeps_paths_def posix_system_def split: list.splits if_splits)

text \<open>
  C6. For a run of \<open>main\<close> that gets as far as the cache (the command line parses, the
  manifest can be read, \<open>VIRTUAL_ENV\<close> is set), with \<open>venv_dir\<close> the directory
  \<open>pylint_venvs/K\<close> under the cache root: if \<open>venv_dir\<close> exists, no program but the linter
  is started, and the linter is started when its scope is entered; if it does not exist,
  the environment creation for \<open>venv_dir\<close> is started first and once, followed by at most
  the install and the linter, in this order. If the tools keep to their contract (a
  creation that exits with 0 has made its directory, no run removes a path) and the run
  after a miss ends with an exit code, \<open>venv_dir\<close> exists afterwards.
\<close>

theorem cache_hit_and_miss:
  assumes "parse_arguments S (case argv of Some x \<Rightarrow> x | None \<Rightarrow> tl (sys_argv S)) = Inr a"
    and "open_text S (world s) (requirements a) = Inr content"
    and "cache_dir S s = Inr root"
    and "venv_dir = path_join S [root, ''pylint_venvs'', reqs_hash (readlines content)]"
  shows "(path_exists S (world s) venv_dir \<longrightarrow>
            (\<exists>rest. spawned (events (snd (main S argv s))) = spawned (events s) @ rest
                  \<and> prefix rest [''pylint'' # files a]
                  \<and> (enters S venv_dir (environ s) \<longrightarrow> rest = [''pylint'' # files a])))
       \<and> (\<not> path_exists S (world s) venv_dir \<longrightarrow>
            (\<exists>rest. spawned (events (snd (main S argv s)))
                       = spawned (events s) @ [sys_executable S, ''-mvirtualenv'', venv_dir] # rest
                  \<and> prefix rest [''pip'' # ''install'' # py_chars (requirements a),
                                  ''pylint'' # files a]))
       \<and> (\<not> path_exists S (world s) venv_dir \<and> creates_on_success S \<and> keeps_paths S
            \<and> (\<exists>rc. fst (main S argv s) = Inr rc)
            \<longrightarrow> path_exists S (world (snd (main S argv s))) venv_dir)"
proof -
  define s1 where "s1 = s\<lparr>events := events s @ [Open (requirements a), Exists venv_dir]\<rparr>"
  note m = main_from_manifest [OF assms s1_def]
  let ?c1 = "[sys_executable S, ''-mvirtualenv'', venv_dir]"
  let ?c2 = "''pip'' # ''install'' # py_chars (requirements a)"
  let ?c3 = "''pylint'' # files a"
  have s1: "spawned (events s1) = spawned (events s)" "world s1 = world s" "environ s1 = environ s"
    by (simp_all add: s1_def spawned_append)
  have hit: "\<exists>rest. spawned (events (snd (main S argv s))) = spawned (events s) @ rest
                  \<and> prefix rest [?c3]
                  \<and> (enters S venv_dir (environ s) \<longrightarrow> rest = [?c3])"
    if e: "path_exists S (world s) venv_dir"
  proof (cases "enters S venv_dir (environ s)")
    case True
    then have "enters S venv_dir (environ s1)" by (simp add: s1)
    from lint_run [OF this, of ?c3] obtain r w3 where
      l: "(case venv_context S venv_dir (call S ?c3 False True) s1 of
             (Inl (CalledProcessError e), s3) \<Rightarrow> (Inr (returncode e), s3)
           | (Inl x, s3) \<Rightarrow> (Inl x, s3)
           | (Inr _, s3) \<Rightarrow> (Inr 0, s3))
          = (r, s1\<lparr>world := w3,
               events := events s1 @ [Spawn ?c3 (activated S venv_dir (environ s1))]\<rparr>)"
      by blast
    have "main S argv s = (r, s1\<lparr>world := w3,
          events := events s1 @ [Spawn ?c3 (activated S venv_dir (environ s1))]\<rparr>)"
      unfolding m l [symmetric] using e by simp
    then show ?thesis by (simp add: spawned_append s1)
  next
    case False
    then have "\<not> enters S venv_dir (environ s1)" by (simp add: s1)
    from lint_refused [OF this, of ?c3]
    have "main S argv s = (Inl ValueError, s1\<lparr>environ := activated S venv_dir (environ s1)\<rparr>)"
      unfolding m using e by simp
    with False show ?thesis by (simp add: s1)
  qed
  from install_virtualenv_cases [of S venv_dir "Str (requirements a)" s1]
  consider
    (A) x w1 where "install_virtualenv S venv_dir (Str (requirements a)) s1 =
        (Inl x, s1\<lparr>world := w1, events := events s1 @ [Spawn ?c1 (environ s1)]\<rparr>)"
  | (D) w1 where "install_virtualenv S venv_dir (Str (requirements a)) s1 =
        (Inl ValueError, s1\<lparr>environ := activated S venv_dir (environ s1), world := w1,
             events := events s1 @ [Spawn ?c1 (environ s1)]\<rparr>)"
  | (B) x w2 where "install_virtualenv S venv_dir (Str (requirements a)) s1 =
        (Inl x, s1\<lparr>world := w2, events := events s1 @ [Spawn ?c1 (environ s1),
             Spawn ?c2 (activated S venv_dir (environ s1))]\<rparr>)"
  | (C) out err w1 out2 err2 w2 where
        "run_process S (world s1) (environ s1) ?c1 True = (Inr (0, out, err), w1)"
        "enters S venv_dir (environ s1)"
        "run_process S w1 (activated S venv_dir (environ s1)) ?c2 True = (Inr (0, out2, err2), w2)"
        "install_virtualenv S venv_dir (Str (requirements a)) s1 =
        (Inr 0, s1\<lparr>world := w2, events := events s1 @ [Spawn ?c1 (environ s1),
             Spawn ?c2 (activated S venv_dir (environ s1))]\<rparr>)"
    by auto
  then have miss: "(\<exists>rest. spawned (events (snd (main S argv s)))
                       = spawned (events s) @ ?c1 # rest \<and> prefix rest [?c2, ?c3])
       \<and> (creates_on_success S \<and> keeps_paths S \<and> (\<exists>rc. fst (main S argv s) = Inr rc)
            \<longrightarrow> path_exists S (world (snd (main S argv s))) venv_dir)"
    if n: "\<not> path_exists S (world s) venv_dir"
  proof cases
    case A
    then have "main S argv s =
        (Inl x, s1\<lparr>world := w1, events := events s1 @ [Spawn ?c1 (environ s1)]\<rparr>)"
      using n by (simp add: m)
    then show ?thesis by (simp add: spawned_append s1)
  next
    case D
    then have "main S argv s =
        (Inl ValueError, s1\<lparr>environ := activated S venv_dir (environ s1), world := w1,
             events := events s1 @ [Spawn ?c1 (environ s1)]\<rparr>)"
      using n by (simp add: m)
    then show ?thesis by (simp add: spawned_append s1)
  next
    case B
    then have "main S argv s = (Inl x, s1\<lparr>world := w2, events := events s1 @ [Spawn ?c1 (environ s1),
             Spawn ?c2 (activated S venv_dir (environ s1))]\<rparr>)"
      using n by (simp add: m)
    then show ?thesis by (simp add: spawned_append s1)
  next
    case C
    let ?s2 = "s1\<lparr>world := w2, events := events s1 @ [Spawn ?c1 (environ s1),
             Spawn ?c2 (activated S venv_dir (environ s1))]\<rparr>"
    have "enters S venv_dir (environ ?s2)" using C(2) by simp
    from lint_run [OF this, of ?c3] obtain r w3 where
      l: "(case venv_context S venv_dir (call S ?c3 False True) ?s2 of
             (Inl (CalledProcessError e), s3) \<Rightarrow> (Inr (returncode e), s3)
           | (Inl x, s3) \<Rightarrow> (Inl x, s3)
           | (Inr _, s3) \<Rightarrow> (Inr 0, s3))
          = (r, ?s2\<lparr>world := w3,
               events := events ?s2 @ [Spawn ?c3 (activated S venv_dir (environ ?s2))]\<rparr>)"
      and w3: "w3 = snd (run_process S (world ?s2) (activated S venv_dir (environ ?s2)) ?c3 False)"
      by blast
    have mm: "main S argv s = (r, ?s2\<lparr>world := w3,
          events := events ?s2 @ [Spawn ?c3 (activated S venv_dir (environ ?s2))]\<rparr>)"
      unfolding m l [symmetric] using n C(4) by simp
    have sp: "\<exists>rest. spawned (events (snd (main S argv s)))
                       = spawned (events s) @ ?c1 # rest \<and> prefix rest [?c2, ?c3]"
      by (simp add: mm spawned_append s1)
    have ex: "path_exists S (world (snd (main S argv s))) venv_dir"
      if "creates_on_success S" "keeps_paths S"
    proof -
      have e1: "path_exists S w1 venv_dir"
        using that(1) C(1) unfolding creates_on_success_def by blast
      have e2: "path_exists S w2 venv_dir"
        using that(2) C(3) e1 unfolding keeps_paths_def by blast
      have "run_process S w2 (activated S venv_dir (environ s1)) ?c3 False
          = (fst (run_process S w2 (activated S venv_dir (environ s1)) ?c3 False), w3)"
        by (simp add: w3)
      then have "path_exists S w3 venv_dir"
        using that(2) e2 unfolding keeps_paths_def by blast
      then show ?thesis by (simp add: mm)
    qed
    from sp ex show ?thesis by blast
  qed
  from hit miss show ?thesis by blast
qed

theorem cache_hit_and_miss_witness:
  "parse_arguments (posix_system all_succeed) [''a.py'']
     = Inr \<lparr>requirements = ''requirements.txt'', files = [''a.py'']\<rparr>
   \<and> open_text (posix_system all_succeed) [] ''requirements.txt'' = Inr (''pylint==3.0.0'' @ [NL])
   \<and> cache_dir (posix_system all_succeed) start = Inr ''/c''
   \<and> \<not> path_exists (posix_system all_succeed) (world start)
         (''/c/pylint_venvs/'' @ reqs_hash [''pylint==3.0.0'' @ [NL]])
   \<and> creates_on_success (posix_system all_succeed) \<and> keeps_paths (posix_system all_succeed)
   \<and> enters (posix_system all_succeed)
         (''/c/pylint_venvs/'' @ reqs_hash [''pylint==3.0.0'' @ [NL]]) (environ start)
   \<and> fst (main (posix_system all_succeed) (Some [''a.py'']) start) = Inr 0
   \<and> spawned (events (snd (main (posix_system all_succeed) (Some [''a.py'']) start)))
       = [[''/usr/bin/python3'', ''-mvirtualenv'',
           ''/c/pylint_venvs/'' @ reqs_hash [''pylint==3.0.0'' @ [NL]]],
          ''pip'' # ''install'' # py_chars ''requirements.txt'',
          [''pylint'', ''a.py'']]
   \<and> path_exists (posix_system all_succeed)
         (world (snd (main (posix_system all_succeed) (Some [''a.py'']) start)))
         (''/c/pylint_venvs/'' @ reqs_hash [''pylint==3.0.0'' @ [NL]])
   \<and> spawned (events (snd (main (posix_system all_succeed) (Some [''a.py''])
         (start\<lparr>world := [''/c/pylint_venvs/'' @ reqs_hash [''pylint==3.0.0'' @ [NL]]]\<rparr>))))
       = [[''pylint'', ''a.py'']]"
  using
    cache_hit_and_miss [where S = "posix_system all_succeed" and argv = "Some [''a.py'']"
      and s = start and a = "\<lparr>requirements = ''requirements.txt'', files = [''a.py'']\<rparr>"
      and content = "''pylint==3.0.0'' @ [NL]" and root = "''/c''"
      and venv_dir = "''/c/pylint_venvs/'' @ reqs_hash [''pylint==3.0.0'' @ [NL]]"]
    cache_hit_and_miss [where S = "posix_system all_succeed" and argv = "Some [''a.py'']"
      and s = "start\<lparr>world := [''/c/pylint_venvs/'' @ reqs_hash [''pylint==3.0.0'' @ [NL]]]\<rparr>"
      and a = "\<lparr>requirements = ''requirements.txt'', files = [''a.py'']\<rparr>"
      and content = "''pylint==3.0.0'' @ [NL]" and root = "''/c''"
      and venv_dir = "''/c/pylint_venvs/'' @ reqs_hash [''pylint==3.0.0'' @ [NL]]"]
    posix_creates_on_success posix_keeps_paths [of all_succeed]
  by (simp add: run_defs enters_iff all_succeed_def is_continuation_def)


section \<open>The cache key\<close>
















section \<open>Evaluating the digest\<close>

lemma expand_numeral:
  "expand (numeral k) rws =
     expand (pred_numeral k) (rotl 1 (rws ! 2 XOR rws ! 7 XOR rws ! 13 XOR rws ! 15) # rws)"
  by (simp add: numeral_eq_Suc)

lemma replicate_numeral:
  "replicate (numeral k) x = x # replicate (pred_numeral k) x"
  by (simp add: numeral_eq_Suc)

lemmas sha1_eval = sha1_hexdigest_def sha1_def sha1_pad_def be64_def compress_def
  run_rounds_def schedule_def expand_numeral replicate_numeral rotl_def sha1_init_def
  f_ch_def f_parity_def f_maj_def hex32_def hex_digit_def

text \<open>The test vector of FIPS 180 for the message \<open>abc\<close>.\<close>

lemma sha1_abc: "sha1_hexdigest ''abc'' = ''a9993e364706816aba3e25717850c26c9cd0d89d''"
  by (simp add: sha1_eval)




section \<open>The cache key and the manifest's text\<close>






end
